theory Spec2Isabelle
  imports Complex_Main
begin

section \<open>Pump power calculator: unit conversion and power equations\<close>

text \<open>
  A shallow embedding of \<^verbatim>\<open>app.py\<close>. Python's floats are read as real numbers, as
  the data model of the specification does ("value: real number"); rounding of the binary
  representation is outside this model. A dictionary lookup with a key that is not in the
  table raises \<^verbatim>\<open>KeyError\<close> and a float division by zero raises
  \<^verbatim>\<open>ZeroDivisionError\<close>; both are results of the model.
\<close>

datatype py_error = KeyError | ZeroDivisionError

subsection \<open>Constants and unit tables\<close>

definition G_SI :: real where
  "G_SI = 9.80665"

definition RHO_WATER_4C :: real where
  "RHO_WATER_4C = 1000.0"

text \<open>
  The keys of the flow table contain the character U+00B3 (superscript three). A
  \<^typ>\<open>char\<close> is a byte, so the keys are written in UTF-8, where that character is the
  two bytes C2 B3. The encoding is injective: two keys are equal as byte lists exactly when
  they are equal as Python strings.
\<close>

definition sup3 :: string where
  "sup3 = [CHR 0xC2, CHR 0xB3]"

definition FLOW_UNITS :: "(string \<times> real) list" where
  "FLOW_UNITS =
     [(''m'' @ sup3 @ ''/s'', 1.0),
      (''L/s'', 1 / 1000),
      (''L/min'', (1 / 1000) / 60.0),
      (''m'' @ sup3 @ ''/h'', 1.0 / 3600.0),
      (''gpm (US)'', 0.003785411784 / 60.0),
      (''ft'' @ sup3 @ ''/s'', 0.028316846592)]"

definition HEAD_UNITS :: "(string \<times> real) list" where
  "HEAD_UNITS = [(''m'', 1.0), (''ft'', 0.3048)]"

definition EFF_UNITS :: "(string \<times> real) list" where
  "EFF_UNITS = [(''%'', 0.01), (''fraction'', 1.0)]"

text \<open>\<^verbatim>\<open>table[key]\<close>: the value stored under the key, or \<^verbatim>\<open>KeyError\<close>.\<close>

definition getitem :: "(string \<times> real) list \<Rightarrow> string \<Rightarrow> py_error + real" where
  "getitem table key = (case map_of table key of None \<Rightarrow> Inl KeyError | Some v \<Rightarrow> Inr v)"

subsection \<open>Helpers\<close>

definition to_si_flow :: "real \<Rightarrow> string \<Rightarrow> py_error + real" where
  "to_si_flow value unit =
     (case getitem FLOW_UNITS unit of Inl e \<Rightarrow> Inl e | Inr f \<Rightarrow> Inr (value * f))"

definition to_si_head :: "real \<Rightarrow> string \<Rightarrow> py_error + real" where
  "to_si_head value unit =
     (case getitem HEAD_UNITS unit of Inl e \<Rightarrow> Inl e | Inr f \<Rightarrow> Inr (value * f))"

definition to_fraction :: "real \<Rightarrow> string \<Rightarrow> py_error + real" where
  "to_fraction value unit =
     (case getitem EFF_UNITS unit of
        Inl e \<Rightarrow> Inl e
      | Inr f \<Rightarrow> Inr (max (1 / 1000000) (min 0.999999 (value * f))))"

definition sg_to_density :: "real \<Rightarrow> real" where
  "sg_to_density s = max (1 / 1000000) s * RHO_WATER_4C"

definition hydraulic_power_kw :: "real \<Rightarrow> real \<Rightarrow> real \<Rightarrow> real \<Rightarrow> real" where
  "hydraulic_power_kw r g Q H = (r * g * Q * H) / 1000.0"

definition shaft_power_kw :: "real \<Rightarrow> real \<Rightarrow> py_error + real" where
  "shaft_power_kw P eff_frac =
     (if eff_frac = 0 then Inl ZeroDivisionError else Inr (P / eff_frac))"

definition kw_to_hp :: "real \<Rightarrow> real" where
  "kw_to_hp kw = kw * 1.34102209"

subsection \<open>The pipeline of the script\<close>

text \<open>
  The values the sidebar widgets hand to the script, and the values the script computes
  from them (lines 92 to 101). The checkbox for the calculation steps only selects what
  is displayed and is left out.
\<close>

record inputs =
  Q_val :: real
  Q_unit :: string
  H_val :: real
  H_unit :: string
  sg :: real
  rho_override :: bool
  rho_custom :: real
  eff_val :: real
  eff_unit :: string
  g_val :: real

record results =
  Q_si :: real
  H_si :: real
  eta :: real
  rho :: real
  P_h_kw :: real
  P_shaft_kw :: real
  P_h_hp :: real
  P_shaft_hp :: real

definition pipeline :: "inputs \<Rightarrow> py_error + results" where
  "pipeline i =
     (case to_si_flow (Q_val i) (Q_unit i) of
        Inl e \<Rightarrow> Inl e
      | Inr q \<Rightarrow>
     (case to_si_head (H_val i) (H_unit i) of
        Inl e \<Rightarrow> Inl e
      | Inr h \<Rightarrow>
     (case to_fraction (eff_val i) (eff_unit i) of
        Inl e \<Rightarrow> Inl e
      | Inr et \<Rightarrow>
     (let d = (if rho_override i then rho_custom i else sg_to_density (sg i));
          ph = hydraulic_power_kw d (g_val i) q h
      in case shaft_power_kw ph et of
           Inl e \<Rightarrow> Inl e
         | Inr ps \<Rightarrow>
             Inr \<lparr>Q_si = q, H_si = h, eta = et, rho = d, P_h_kw = ph, P_shaft_kw = ps,
                  P_h_hp = kw_to_hp ph, P_shaft_hp = kw_to_hp ps\<rparr>))))"

text \<open>The values the widgets start with: the default of every input.\<close>

definition default_inputs :: inputs where
  "default_inputs =
     \<lparr>Q_val = 0.05, Q_unit = ''m'' @ sup3 @ ''/s'', H_val = 20.0, H_unit = ''m'',
      sg = 1.0, rho_override = False, rho_custom = 1000.0,
      eff_val = 70.0, eff_unit = ''%'', g_val = G_SI\<rparr>"

section \<open>Properties\<close>

subsection \<open>Table lookups\<close>

lemma getitem_EFF_percent: "getitem EFF_UNITS ''%'' = Inr (1 / 100)"
  by (simp add: getitem_def EFF_UNITS_def)

lemma getitem_EFF_fraction: "getitem EFF_UNITS ''fraction'' = Inr 1"
  by (simp add: getitem_def EFF_UNITS_def)

lemma getitem_FLOW_gpm: "getitem FLOW_UNITS ''gpm (US)'' = Inr (0.003785411784 / 60)"
  by (simp add: getitem_def FLOW_UNITS_def sup3_def)

lemma to_fraction_percent:
  "to_fraction v ''%'' = Inr (max (1 / 1000000) (min 0.999999 (v * (1 / 100))))"
  by (simp add: to_fraction_def getitem_EFF_percent)

lemma to_fraction_fraction:
  "to_fraction v ''fraction'' = Inr (max (1 / 1000000) (min 0.999999 (v * 1)))"
  by (simp add: to_fraction_def getitem_EFF_fraction)

lemma to_fraction_unknown_unit: "to_fraction v ''percent'' = Inl KeyError"
  by (simp add: to_fraction_def getitem_def EFF_UNITS_def)

lemma to_fraction_extremes:
  "to_fraction (- 5) ''%'' = Inr (1 / 1000000)"
  "to_fraction 2000 ''%'' = Inr 0.999999"
  "to_fraction 0 ''fraction'' = Inr (1 / 1000000)"
  "to_fraction 70 ''%'' = Inr 0.7"
  by (simp_all add: to_fraction_percent to_fraction_fraction)

subsection \<open>Efficiency clamp\<close>

text \<open>
  C3. For every real efficiency value and either unit tag (\<^verbatim>\<open>%\<close> or
  \<^verbatim>\<open>fraction\<close>), \<^verbatim>\<open>to_fraction\<close> returns a value between 1e-6 and 0.999999,
  also for negative values and values above 1000 percent; so \<^verbatim>\<open>shaft_power_kw\<close>
  called with that value as its efficiency never divides by zero: it returns the quotient.
\<close>

theorem to_fraction_in_range:
  assumes "unit = ''%'' \<or> unit = ''fraction''"
  shows "\<exists>f. to_fraction value unit = Inr f \<and> 1 / 1000000 \<le> f \<and> f \<le> 0.999999 \<and>
             f \<noteq> 0 \<and> shaft_power_kw P f = Inr (P / f)"
proof -
  from assms obtain c where c: "to_fraction value unit = Inr (max (1 / 1000000) (min 0.999999 (value * c)))"
    using to_fraction_percent to_fraction_fraction by blast
  define f where "f = max (1 / 1000000) (min 0.999999 (value * c))"
  have lo: "1 / 1000000 \<le> f" unfolding f_def by simp
  have hi: "f \<le> 0.999999" unfolding f_def by simp
  from lo have nz: "f \<noteq> 0" by auto
  then have "shaft_power_kw P f = Inr (P / f)" by (simp add: shaft_power_kw_def)
  with c lo hi nz show ?thesis unfolding f_def by blast
qed

theorem to_fraction_in_range_witness:
  "(''%'' = ''%'' \<or> ''%'' = ''fraction'') \<and>
   (\<exists>f. to_fraction (- 5) ''%'' = Inr f \<and> 1 / 1000000 \<le> f \<and> f \<le> 0.999999 \<and>
        f \<noteq> 0 \<and> shaft_power_kw 9.80665 f = Inr (9.80665 / f))"
  using to_fraction_in_range [of "''%''" "- 5" "9.80665"] by simp

subsection \<open>Flow conversion\<close>

text \<open>
  C6, as amended. \<^verbatim>\<open>to_si_flow\<close> multiplies its value by a fixed factor for each
  unit: 0.001 for L/s, 0.003785411784/60 for US gpm (one US gallon is 3.785411784 litres)
  and 0.028316846592 for cubic feet per second, for every input value.
\<close>

theorem to_si_flow_factors:
  "to_si_flow v ''L/s'' = Inr (v * 0.001) \<and>
   to_si_flow v ''gpm (US)'' = Inr (v * (0.003785411784 / 60)) \<and>
   to_si_flow v (''ft'' @ sup3 @ ''/s'') = Inr (v * 0.028316846592)"
  by (simp add: to_si_flow_def getitem_def FLOW_UNITS_def sup3_def)

text \<open>
  C6, as stated, gives 0.0030785411784/60 as the factor for US gpm. At 60 gpm the code
  returns 0.003785411784, not 60 times that factor.
\<close>

theorem to_si_flow_gpm_counterexample:
  "to_si_flow 60 ''gpm (US)'' = Inr 0.003785411784 \<and>
   to_si_flow 60 ''gpm (US)'' \<noteq> Inr (60 * (0.0030785411784 / 60))"
  by (simp add: to_si_flow_def getitem_FLOW_gpm)

text \<open>
  C7. For the flow value 100 with unit \<^verbatim>\<open>gpm (US)\<close>, \<^verbatim>\<open>to_si_flow\<close> returns
  100 times 0.003785411784/60, which is 0.0063090 cubic metres per second to seven
  decimal places.
\<close>

theorem to_si_flow_100_gpm:
  "to_si_flow 100 ''gpm (US)'' = Inr (100 * 0.003785411784 / 60) \<and>
   \<bar>100 * 0.003785411784 / 60 - 0.0063090\<bar> \<le> (0.00000005 :: real)"
  by (simp add: to_si_flow_def getitem_FLOW_gpm)

subsection \<open>Density from specific gravity\<close>

text \<open>
  C8. \<^verbatim>\<open>sg_to_density\<close> returns max(1e-6, sg) * 1000.0 for every real sg; at 0 and
  at -5 it returns exactly 1e-3, and so it does for every non-positive specific gravity:
  the result is a small positive density, never 0 and never an error.
\<close>

theorem sg_to_density_floor:
  "sg_to_density s = max (1 / 1000000) s * 1000.0 \<and>
   sg_to_density 0 = 1 / 1000 \<and>
   sg_to_density (- 5) = 1 / 1000 \<and>
   (s \<le> 0 \<longrightarrow> sg_to_density s = 1 / 1000) \<and>
   0 < sg_to_density s"
proof -
  have pos: "0 < max (1 / 1000000) s" by (simp add: less_max_iff_disj)
  have "s \<le> 0 \<Longrightarrow> max (1 / 1000000) s = 1 / 1000000" by (simp add: max_def)
  with pos show ?thesis by (simp add: sg_to_density_def RHO_WATER_4C_def)
qed

theorem sg_to_density_floor_witness:
  "(- 2 :: real) \<le> 0 \<and> sg_to_density (- 2) = 1 / 1000 \<and> 0 < sg_to_density (- 2)"
  using sg_to_density_floor [of "- 2"] by simp

subsection \<open>Power equations\<close>





text \<open>
  C9. \<^verbatim>\<open>kw_to_hp\<close> multiplies by 1.34102209. The source comments the constant as
  metric horsepower, the unit of 735.49875 W, for which one kilowatt is 1000/735.49875
  = 1.3596... horsepower. At 1 kW the code returns 1.34102209, which is more than 0.018
  away from that.
\<close>

theorem kw_to_hp_not_metric:
  "kw_to_hp 1 = 1.34102209 \<and> 0.018 < \<bar>kw_to_hp 1 - 1000 / 735.49875\<bar>"
  by (simp add: kw_to_hp_def)

text \<open>
  The constant agrees to eight decimal places with the mechanical horsepower of
  745.699872 W.
\<close>

lemma kw_to_hp_mechanical:
  "kw_to_hp kw = kw * 1.34102209 \<and> \<bar>kw_to_hp 1 - 1000 / 745.699872\<bar> < 1 / 10 ^ 8"
  by (simp add: kw_to_hp_def)

subsection \<open>The pipeline\<close>

text \<open>
  With unit tags taken from the tables and a non-zero efficiency fraction the script runs
  to its end, and every computed value is given by the inputs.
\<close>

lemma pipeline_Inr:
  assumes "getitem FLOW_UNITS (Q_unit i) = Inr fq"
    and "getitem HEAD_UNITS (H_unit i) = Inr fh"
    and "to_fraction (eff_val i) (eff_unit i) = Inr et"
    and "et \<noteq> 0"
    and "d = (if rho_override i then rho_custom i else sg_to_density (sg i))"
    and "ph = hydraulic_power_kw d (g_val i) (Q_val i * fq) (H_val i * fh)"
  shows "pipeline i =
           Inr \<lparr>Q_si = Q_val i * fq, H_si = H_val i * fh, eta = et, rho = d, P_h_kw = ph,
                P_shaft_kw = ph / et, P_h_hp = kw_to_hp ph, P_shaft_hp = kw_to_hp (ph / et)\<rparr>"
  using assms by (simp add: pipeline_def to_si_flow_def to_si_head_def shaft_power_kw_def Let_def)

lemmas pipeline_defs =
  default_inputs_def getitem_def FLOW_UNITS_def HEAD_UNITS_def EFF_UNITS_def sup3_def
  to_fraction_def sg_to_density_def RHO_WATER_4C_def G_SI_def hydraulic_power_kw_def


lemma pipeline_rho:
  assumes "pipeline i = Inr out"
  shows "rho out = (if rho_override i then rho_custom i else sg_to_density (sg i))"
  using assms
  by (auto simp: pipeline_def Let_def split: sum.splits if_splits)

lemma pipeline_rho_sg_positive:
  assumes "pipeline i = Inr out" and "\<not> rho_override i"
  shows "1 / 1000 \<le> rho out"
proof -
  have "1 / 1000000 \<le> max (1 / 1000000) (sg i)" by simp
  then have "1 / 1000 \<le> sg_to_density (sg i)"
    by (simp add: sg_to_density_def RHO_WATER_4C_def)
  with pipeline_rho [OF assms(1)] assms(2) show ?thesis by simp
qed

text \<open>
  C1. The override density, when present, replaces the density derived from the specific
  gravity, and on the specific-gravity path the density is floored at 1e-3. The override
  itself is not floored: with the default inputs, the override ticked and a custom density
  of 0, the density used is 0 and every power is 0.
\<close>

theorem pipeline_zero_override_density:
  "pipeline (default_inputs\<lparr>rho_override := True, rho_custom := 0\<rparr>) =
     Inr \<lparr>Q_si = 0.05, H_si = 20, eta = 0.7, rho = 0, P_h_kw = 0,
          P_shaft_kw = 0, P_h_hp = 0, P_shaft_hp = 0\<rparr>"
proof -
  let ?i = "default_inputs\<lparr>rho_override := True, rho_custom := 0\<rparr>"
  have "pipeline ?i =
          Inr \<lparr>Q_si = Q_val ?i * 1, H_si = H_val ?i * 1, eta = 0.7, rho = 0,
               P_h_kw = 0, P_shaft_kw = 0 / 0.7, P_h_hp = kw_to_hp 0,
               P_shaft_hp = kw_to_hp (0 / 0.7)\<rparr>"
    by (rule pipeline_Inr)
       (simp_all add: pipeline_defs)
  then show ?thesis by (simp add: kw_to_hp_def default_inputs_def)
qed

text \<open>
  C2, as amended. With the default inputs (Q = 0.05 cubic metres per second, H = 20 m,
  SG = 1.0, g = 9.80665, efficiency 70 percent) the pipeline computes a density of 1000,
  a hydraulic power of exactly (1000 * 9.80665 * 0.05 * 20) / 1000 = 9.80665 kW, a shaft
  power of 9.80665 / 0.70 = 14.0095 kW and a hydraulic power of 13.151 HP to three
  decimal places.
\<close>

theorem pipeline_default_scenario:
  "\<exists>out. pipeline default_inputs = Inr out \<and>
         Q_si out = 0.05 \<and> H_si out = 20 \<and> rho out = 1000 \<and> eta out = 0.70 \<and>
         P_h_kw out = (1000 * 9.80665 * 0.05 * 20) / 1000 \<and>
         P_h_kw out = 9.80665 \<and>
         P_shaft_kw out = 9.80665 / 0.70 \<and>
         \<bar>P_shaft_kw out - 14.0095\<bar> \<le> 0.00005 \<and>
         \<bar>P_h_hp out - 13.151\<bar> \<le> 0.0005"
proof -
  have "pipeline default_inputs =
          Inr \<lparr>Q_si = Q_val default_inputs * 1, H_si = H_val default_inputs * 1, eta = 0.7,
               rho = 1000, P_h_kw = 9.80665, P_shaft_kw = 9.80665 / 0.7,
               P_h_hp = kw_to_hp 9.80665, P_shaft_hp = kw_to_hp (9.80665 / 0.7)\<rparr>"
    by (rule pipeline_Inr)
       (simp_all add: pipeline_defs)
  then show ?thesis by (simp add: kw_to_hp_def default_inputs_def)
qed

text \<open>
  C2, as stated, gives the hydraulic power as 13.148 HP. The code computes
  9.80665 * 1.34102209 = 13.1509342788985 HP, which is more than 0.0029 away.
\<close>

theorem pipeline_default_hp_counterexample:
  "pipeline default_inputs =
     Inr \<lparr>Q_si = 0.05, H_si = 20, eta = 0.7, rho = 1000, P_h_kw = 9.80665,
          P_shaft_kw = 14.0095, P_h_hp = 13.1509342788985,
          P_shaft_hp = 14.0095 * 1.34102209\<rparr> \<and>
   \<not> \<bar>(13.1509342788985 :: real) - 13.148\<bar> \<le> 0.0029"
proof -
  have "pipeline default_inputs =
          Inr \<lparr>Q_si = Q_val default_inputs * 1, H_si = H_val default_inputs * 1, eta = 0.7,
               rho = 1000, P_h_kw = 9.80665, P_shaft_kw = 9.80665 / 0.7,
               P_h_hp = kw_to_hp 9.80665, P_shaft_hp = kw_to_hp (9.80665 / 0.7)\<rparr>"
    by (rule pipeline_Inr)
       (simp_all add: pipeline_defs)
  then show ?thesis by (simp add: kw_to_hp_def default_inputs_def)
qed



end
